theory Spec2Isabelle
  imports Main
begin

section \<open>The chat client of FordSupportChat.jsx\<close>

text \<open>
  The component \<^verbatim>\<open>FordSupportChat\<close> keeps five pieces of React state
  (\<^verbatim>\<open>messages\<close>, \<^verbatim>\<open>inputMessage\<close>, \<^verbatim>\<open>isSending\<close>,
  \<^verbatim>\<open>isConnecting\<close>, \<^verbatim>\<open>sessionId\<close>) and three handlers
  (\<^verbatim>\<open>startChatSession\<close>, \<^verbatim>\<open>sendMessage\<close>, \<^verbatim>\<open>handleChatKeyDown\<close>).
  Each handler is embedded as a function from the state before the call to the state after
  it. What the handler reads from outside (the clock, the locale time string, the outcome
  of the network call) is an explicit argument; what it does to the outside
  (\<^verbatim>\<open>fetch\<close>, \<^verbatim>\<open>alert\<close>) is appended to a log kept in the state.

  A handler is taken to run with the values of the current render (its closure holds the
  state it is applied to), and an asynchronous handler is taken to run from its call to
  its end without another handler in between: while a send is outstanding the text area
  and the button are disabled. The state a handler leaves before its first
  \<^verbatim>\<open>await\<close> is given by a function of its own, and is the final state when the
  awaited call never settles.
\<close>

subsection \<open>Strings\<close>

text \<open>
  A JavaScript string is a sequence of code units. Code units are modelled by the 8-bit
  \<^typ>\<open>char\<close>, which covers the range U+0000 to U+00FF; in that range the characters
  removed by \<^verbatim>\<open>String.prototype.trim\<close> (WhiteSpace and LineTerminator) are
  TAB, LF, VT, FF, CR, SPACE and NO-BREAK SPACE.
\<close>

definition isWhiteSpace :: "char \<Rightarrow> bool" where
  "isWhiteSpace c \<longleftrightarrow>
     c = CHR 0x09 \<or> c = CHR 0x0A \<or> c = CHR 0x0B \<or> c = CHR 0x0C \<or> c = CHR 0x0D \<or>
     c = CHR 0x20 \<or> c = CHR 0xA0"

definition trim :: "string \<Rightarrow> string" where
  "trim s = rev (dropWhile isWhiteSpace (rev (dropWhile isWhiteSpace s)))"

definition startsWith :: "string \<Rightarrow> string \<Rightarrow> bool" where
  "startsWith s p \<longleftrightarrow> take (length p) s = p"

definition substring :: "string \<Rightarrow> nat \<Rightarrow> string" where
  "substring s n = drop n s"

text \<open>The decimal digits of a number, as a template literal prints \<^verbatim>\<open>response.status\<close>.\<close>

definition digit :: "nat \<Rightarrow> char" where
  "digit d = ''0123456789'' ! d"

fun string_of_nat :: "nat \<Rightarrow> string" where
  "string_of_nat n =
     (if n < 10 then [digit n] else string_of_nat (n div 10) @ [digit (n mod 10)])"

declare string_of_nat.simps [simp del]

subsection \<open>Messages\<close>

datatype sender = User | Bot

text \<open>
  A message object. \<^verbatim>\<open>isStreaming\<close> and \<^verbatim>\<open>isError\<close> are optional properties:
  \<open>None\<close> is a property the object does not have.
\<close>

record message =
  msg_id :: int
  msg_text :: string
  sender :: sender
  timestamp :: string
  isStreaming :: "bool option"
  isError :: "bool option"

text \<open>
  The four message states of the specification, read off a message the way the render
  function reads it (lines 344 to 366): the \<^verbatim>\<open>error\<close> class is set when
  \<^verbatim>\<open>isError\<close> is truthy, the loader shows when \<^verbatim>\<open>isStreaming\<close> is truthy and
  the text is empty, the cursor when \<^verbatim>\<open>isStreaming\<close> is truthy and there is text.
\<close>

datatype msg_state = Pending | Streaming | Complete | Error

definition state_of :: "message \<Rightarrow> msg_state" where
  "state_of m =
     (if isError m = Some True then Error
      else if isStreaming m = Some True then (if msg_text m = [] then Pending else Streaming)
      else Complete)"

subsection \<open>The outside world\<close>

text \<open>How an awaited promise ends: with a value, with a thrown error (its message), or never.\<close>

datatype 'a settled = Fulfilled 'a | Rejected string | NeverSettles

text \<open>
  A response body is a stream of byte chunks (bytes are 8-bit \<^typ>\<open>char\<close>s) whose last
  \<^verbatim>\<open>read()\<close> either reports \<^verbatim>\<open>done\<close>, rejects, or never settles.
  \<^verbatim>\<open>response.body\<close> may also be \<^verbatim>\<open>null\<close>; then \<^verbatim>\<open>getReader()\<close>
  throws a TypeError, whose message is carried here.
\<close>

datatype body = NullBody string | Stream "string list" "unit settled"

record response =
  status :: nat
  body :: body

definition ok :: "response \<Rightarrow> bool" where
  "ok r \<longleftrightarrow> 200 \<le> status r \<and> status r \<le> 299"

text \<open>
  \<^verbatim>\<open>TextDecoder\<close> is platform code. It is taken as a parameter: a state machine that
  consumes one byte at a time and emits code units, with a final flush. A call
  \<^verbatim>\<open>decoder.decode(value, {stream: true})\<close> runs the machine over the bytes of one
  chunk and keeps its state for the next call.
\<close>

record 's decoder =
  dec_init :: 's
  dec_step :: "'s \<Rightarrow> char \<Rightarrow> 's \<times> string"
  dec_flush :: "'s \<Rightarrow> string"

fun decode :: "'s decoder \<Rightarrow> 's \<Rightarrow> string \<Rightarrow> 's \<times> string" where
  "decode dec s [] = (s, [])"
| "decode dec s (b # bs) =
     (let (s1, out1) = dec_step dec s b;
          (s2, out2) = decode dec s1 bs
      in (s2, out1 @ out2))"

text \<open>
  \<^verbatim>\<open>await response.text()\<close>: the whole body decoded in one go, flushed at the end.
\<close>

definition response_text :: "'s decoder \<Rightarrow> body \<Rightarrow> string settled" where
  "response_text dec b =
     (case b of
        NullBody _ \<Rightarrow> Fulfilled []
      | Stream chunks fin \<Rightarrow>
          (case fin of
             Fulfilled _ \<Rightarrow>
               (let (s, out) = decode dec (dec_init dec) (concat chunks)
                in Fulfilled (out @ dec_flush dec s))
           | Rejected m \<Rightarrow> Rejected m
           | NeverSettles \<Rightarrow> NeverSettles))"

text \<open>A decoder for witnesses: on ASCII input UTF-8 decoding maps each byte to itself.\<close>

definition ascii_decoder :: "unit decoder" where
  "ascii_decoder = \<lparr>dec_init = (), dec_step = (\<lambda>_ b. ((), [b])), dec_flush = (\<lambda>_. [])\<rparr>"

subsection \<open>Client state\<close>

datatype request = StartRequest | MessageRequest string string

record client =
  messages :: "message list"
  inputMessage :: string
  isSending :: bool
  isConnecting :: bool
  sessionId :: "string option"
  alerts :: "string list"
  fetches :: "request list"

definition initial :: client where
  "initial = \<lparr>messages = [], inputMessage = [], isSending = False, isConnecting = False,
     sessionId = None, alerts = [], fetches = []\<rparr>"

text \<open>JavaScript truthiness of \<^verbatim>\<open>sessionId\<close>: \<^verbatim>\<open>null\<close> and the empty string are falsy.\<close>

definition truthy :: "string option \<Rightarrow> bool" where
  "truthy v \<longleftrightarrow> (case v of None \<Rightarrow> False | Some s \<Rightarrow> s \<noteq> [])"

text \<open>\<^verbatim>\<open>onChange={(e) => setInputMessage(e.target.value)}\<close> (line 376).\<close>

definition onChange :: "string \<Rightarrow> client \<Rightarrow> client" where
  "onChange v st = st\<lparr>inputMessage := v\<rparr>"

subsection \<open>\<^verbatim>\<open>startChatSession\<close> (lines 182 to 212)\<close>

text \<open>
  What the session-creation call meets: the outcome of \<^verbatim>\<open>fetch\<close>, and for a response
  its status, the outcome of \<^verbatim>\<open>response.text()\<close> (read only when the status is not
  ok) and the outcome of \<^verbatim>\<open>response.json()\<close> followed by the read of
  \<^verbatim>\<open>data.session_id\<close> (reached only when the status is ok). The last one is
  \<open>Rejected\<close> when the body is not JSON or \<^verbatim>\<open>data\<close> is \<^verbatim>\<open>null\<close>, and
  \<open>Fulfilled None\<close> when \<^verbatim>\<open>data\<close> has no \<^verbatim>\<open>session_id\<close>.
\<close>

record start_response =
  start_status :: nat
  start_text :: "string settled"
  start_json :: "string option settled"

record start_env =
  start_reply :: "start_response settled"
  start_now :: int
  start_time :: string

definition start_ok :: "start_response \<Rightarrow> bool" where
  "start_ok r \<longleftrightarrow> 200 \<le> start_status r \<and> start_status r \<le> 299"

text \<open>The text of line 200; the apostrophe is the character 0x27.\<close>

definition greeting_text :: string where
  "greeting_text =
     ''Welcome! I'' @ [CHR 0x27] @ ''m your Ford Customer Support assistant. How can I help?''"

definition greeting :: "start_env \<Rightarrow> message" where
  "greeting env =
     \<lparr>msg_id = start_now env, msg_text = greeting_text,
      sender = Bot, timestamp = start_time env, isStreaming = None, isError = None\<rparr>"

text \<open>The \<^verbatim>\<open>try\<close> block up to the point where it has a session id or has thrown.\<close>

definition start_try :: "start_env \<Rightarrow> string option settled" where
  "start_try env =
     (case start_reply env of
        Rejected m \<Rightarrow> Rejected m
      | NeverSettles \<Rightarrow> NeverSettles
      | Fulfilled r \<Rightarrow>
          if \<not> start_ok r then
            (case start_text r of
               Fulfilled errorText \<Rightarrow>
                 Rejected (''HTTP error! status: '' @ string_of_nat (start_status r) @
                           '', message: '' @ errorText)
             | Rejected m \<Rightarrow> Rejected m
             | NeverSettles \<Rightarrow> NeverSettles)
          else start_json r)"

definition startChatSession :: "start_env \<Rightarrow> client \<Rightarrow> client" where
  "startChatSession env st =
     (let st1 = st\<lparr>isConnecting := True, fetches := fetches st @ [StartRequest]\<rparr>
      in case start_try env of
           NeverSettles \<Rightarrow> st1
         | Fulfilled session_id \<Rightarrow>
             st1\<lparr>sessionId := session_id, messages := [greeting env], isConnecting := False\<rparr>
         | Rejected m \<Rightarrow>
             st1\<lparr>alerts := alerts st1 @
                    [''Failed to start chat session. Please ensure the backend is running. Error: '' @ m],
                 sessionId := None, isConnecting := False\<rparr>)"

subsection \<open>\<^verbatim>\<open>sendMessage\<close> (lines 214 to 310)\<close>

text \<open>
  What one call reads from outside: \<^verbatim>\<open>Date.now()\<close> and the locale time string at
  line 218 to 221 (user message), at line 230 to 238 (placeholder) and at line 299 to 303
  (error message, read only in the \<^verbatim>\<open>catch\<close> branch), and the outcome of \<^verbatim>\<open>fetch\<close>.
\<close>

record send_env =
  now_user :: int
  time_user :: string
  now_bot :: int
  time_bot :: string
  reply :: "response settled"
  now_err :: int
  time_err :: string

definition userMessage :: "send_env \<Rightarrow> client \<Rightarrow> message" where
  "userMessage env st =
     \<lparr>msg_id = now_user env, msg_text = inputMessage st, sender = User,
      timestamp = time_user env, isStreaming = None, isError = None\<rparr>"

definition botMessagePlaceholderId :: "send_env \<Rightarrow> int" where
  "botMessagePlaceholderId env = now_bot env + 1"

definition placeholder :: "send_env \<Rightarrow> message" where
  "placeholder env =
     \<lparr>msg_id = botMessagePlaceholderId env, msg_text = [], sender = Bot,
      timestamp = time_bot env, isStreaming = Some True, isError = None\<rparr>"

text \<open>
  Lines 217 to 247, everything before the first \<^verbatim>\<open>await\<close>: the user message and the
  placeholder are appended, the input is cleared, the latch is set and the request is
  issued.
\<close>

definition sendMessage_begin :: "send_env \<Rightarrow> client \<Rightarrow> client" where
  "sendMessage_begin env st =
     st\<lparr>messages := (messages st @ [userMessage env st]) @ [placeholder env],
        inputMessage := [],
        isSending := True,
        fetches := fetches st @
          [MessageRequest (case sessionId st of None \<Rightarrow> ''null'' | Some s \<Rightarrow> s) (inputMessage st)]\<rparr>"

text \<open>
  Lines 257 to 264, the read loop: each chunk is decoded with the decoder's state carried
  over and appended to \<^verbatim>\<open>buffer\<close>; the loop leaves only when a read reports
  \<^verbatim>\<open>done\<close> or throws.
\<close>

fun readLoop :: "'s decoder \<Rightarrow> 's \<Rightarrow> string \<Rightarrow> string list \<Rightarrow> unit settled \<Rightarrow> string settled" where
  "readLoop dec s buffer [] (Fulfilled _) = Fulfilled buffer"
| "readLoop dec s buffer [] (Rejected m) = Rejected m"
| "readLoop dec s buffer [] NeverSettles = NeverSettles"
| "readLoop dec s buffer (value # rest) fin =
     (let (s', out) = decode dec s value in readLoop dec s' (buffer @ out) rest fin)"

text \<open>
  Lines 243 to 264: the \<^verbatim>\<open>try\<close> block up to the point where it holds the drained
  buffer (\<open>Fulfilled\<close>), has thrown (\<open>Rejected\<close>, with \<^verbatim>\<open>error.message\<close>), or
  waits for ever.
\<close>

definition send_try :: "'s decoder \<Rightarrow> response settled \<Rightarrow> string settled" where
  "send_try dec r =
     (case r of
        Rejected m \<Rightarrow> Rejected m
      | NeverSettles \<Rightarrow> NeverSettles
      | Fulfilled resp \<Rightarrow>
          if \<not> ok resp then
            (case response_text dec (body resp) of
               Fulfilled errorText \<Rightarrow>
                 Rejected (''HTTP error! status: '' @ string_of_nat (status resp) @
                           '', message: '' @ errorText)
             | Rejected m \<Rightarrow> Rejected m
             | NeverSettles \<Rightarrow> NeverSettles)
          else
            (case body resp of
               NullBody m \<Rightarrow> Rejected m
             | Stream chunks fin \<Rightarrow> readLoop dec (dec_init dec) [] chunks fin))"

text \<open>Lines 266 to 292: what the three branches do to \<^verbatim>\<open>messages\<close>.\<close>

definition on_buffer :: "int \<Rightarrow> string \<Rightarrow> message list \<Rightarrow> message list" where
  "on_buffer pid buffer prevMsgs =
     (let messageBlock = trim buffer in
      if startsWith messageBlock ''data:'' then
        (let content = trim (substring messageBlock 5)
         in map (\<lambda>msg. if msg_id msg = pid
                         then msg\<lparr>msg_text := content, isStreaming := Some False\<rparr>
                         else msg) prevMsgs)
      else if messageBlock \<noteq> [] then
        map (\<lambda>msg. if msg_id msg = pid
                    then msg\<lparr>msg_text := ''Error: Received malformed response from server.'',
                             isError := Some True, isStreaming := Some False\<rparr>
                    else msg) prevMsgs
      else
        map (\<lambda>msg. if msg_id msg = pid
                    then msg\<lparr>msg_text := ''No response from server.'',
                             isError := Some True, isStreaming := Some False\<rparr>
                    else msg) prevMsgs)"

text \<open>Lines 294 to 305: the \<^verbatim>\<open>catch\<close> branch.\<close>

definition errorMessage :: "send_env \<Rightarrow> string \<Rightarrow> message" where
  "errorMessage env m =
     \<lparr>msg_id = now_err env + 2,
      msg_text = ''Something went wrong: '' @ m @ ''. Please try again.'',
      sender = Bot, timestamp = time_err env, isStreaming = None, isError = Some True\<rparr>"

definition on_catch :: "send_env \<Rightarrow> int \<Rightarrow> string \<Rightarrow> message list \<Rightarrow> message list" where
  "on_catch env pid m prev =
     (let newMessages = filter (\<lambda>msg. \<not> (msg_id msg = pid)) prev
      in newMessages @ [errorMessage env m])"

text \<open>
  The whole handler. When the awaited call never settles the handler stays suspended
  with the state it had set before the \<^verbatim>\<open>await\<close>.
\<close>

definition sendMessage :: "'s decoder \<Rightarrow> send_env \<Rightarrow> client \<Rightarrow> client" where
  "sendMessage dec env st =
     (if trim (inputMessage st) = [] \<or> \<not> truthy (sessionId st) then st
      else
        (let st1 = sendMessage_begin env st;
             pid = botMessagePlaceholderId env
         in case send_try dec (reply env) of
              NeverSettles \<Rightarrow> st1
            | Fulfilled buffer \<Rightarrow>
                st1\<lparr>messages := on_buffer pid buffer (messages st1), isSending := False\<rparr>
            | Rejected m \<Rightarrow>
                st1\<lparr>messages := on_catch env pid m (messages st1), isSending := False\<rparr>))"

subsection \<open>The two callers of \<^verbatim>\<open>sendMessage\<close>\<close>

text \<open>\<^verbatim>\<open>handleChatKeyDown\<close> (lines 312 to 319). The result says whether
  \<^verbatim>\<open>e.preventDefault()\<close> was called, and gives the state.\<close>

record key_event =
  key :: string
  shiftKey :: bool
  ctrlKey :: bool
  altKey :: bool
  metaKey :: bool

definition handleChatKeyDown :: "'s decoder \<Rightarrow> send_env \<Rightarrow> key_event \<Rightarrow> client \<Rightarrow> bool \<times> client" where
  "handleChatKeyDown dec env e st =
     (if key e = ''Enter'' \<and> \<not> shiftKey e then
        (True, if trim (inputMessage st) \<noteq> [] \<and> \<not> isSending st
               then sendMessage dec env st else st)
      else (False, st))"

text \<open>The send button (lines 382 to 385): a click on a disabled button calls no handler.\<close>

definition sendButton_disabled :: "client \<Rightarrow> bool" where
  "sendButton_disabled st \<longleftrightarrow> trim (inputMessage st) = [] \<or> isSending st"

definition sendButton_click :: "'s decoder \<Rightarrow> send_env \<Rightarrow> client \<Rightarrow> client" where
  "sendButton_click dec env st =
     (if sendButton_disabled st then st else sendMessage dec env st)"

subsection \<open>Reachable states\<close>

text \<open>
  The states the component can be in: the initial one, and the result of any handler on
  a reachable state. The text area is disabled while a send is outstanding (line 380), so
  its change handler runs only when \<^verbatim>\<open>isSending\<close> is false. The other guards of
  the render function (the connect button shown only without a session and disabled while
  connecting, the chat box shown only with a session, the disabled text area for key
  events) are left out, and \<^verbatim>\<open>sendMessage\<close> is also allowed to be called as it
  is: this only adds states.
\<close>

inductive reachable :: "'s decoder \<Rightarrow> client \<Rightarrow> bool" for dec :: "'s decoder" where
  reach_initial: "reachable dec initial"
| reach_start: "reachable dec st \<Longrightarrow> reachable dec (startChatSession senv st)"
| reach_change: "reachable dec st \<Longrightarrow> \<not> isSending st \<Longrightarrow> reachable dec (onChange v st)"
| reach_keydown: "reachable dec st \<Longrightarrow> reachable dec (snd (handleChatKeyDown dec env e st))"
| reach_click: "reachable dec st \<Longrightarrow> reachable dec (sendButton_click dec env st)"
| reach_send: "reachable dec st \<Longrightarrow> reachable dec (sendMessage dec env st)"

subsection \<open>The decision table of the specification (section 4.3)\<close>







subsection \<open>Concrete inputs\<close>

text \<open>
  A successful session start at clock reading 990, and a send whose three clock readings
  and network outcome are given.
\<close>

definition start_fixture :: start_env where
  "start_fixture =
     \<lparr>start_reply = Fulfilled
        \<lparr>start_status = 200,
         start_text = Fulfilled (''{'' @ [CHR 0x22] @ ''session_id'' @ [CHR 0x22] @ '': '' @
                                 [CHR 0x22] @ ''s1'' @ [CHR 0x22] @ ''}''),
         start_json = Fulfilled (Some ''s1'')\<rparr>,
      start_now = 990, start_time = ''9:59:58 AM''\<rparr>"

definition connected :: client where
  "connected = startChatSession start_fixture initial"

definition send_at :: "int \<Rightarrow> int \<Rightarrow> int \<Rightarrow> response settled \<Rightarrow> send_env" where
  "send_at t_user t_bot t_err r =
     \<lparr>now_user = t_user, time_user = ''10:00:00 AM'', now_bot = t_bot,
      time_bot = ''10:00:00 AM'', reply = r, now_err = t_err, time_err = ''10:00:01 AM''\<rparr>"

definition http :: "nat \<Rightarrow> string list \<Rightarrow> response settled" where
  "http code chunks = Fulfilled \<lparr>status = code, body = Stream chunks (Fulfilled ())\<rparr>"

text \<open>
  The state after a first send, typed as \<open>a\<close> at clock reading 999, failed in the
  network at clock reading 1000, and after the user has typed \<open>b\<close>.
\<close>

definition after_failed_send :: client where
  "after_failed_send =
     onChange ''b''
       (sendMessage ascii_decoder (send_at 999 999 1000 (Rejected ''Failed to fetch''))
          (onChange ''a'' connected))"

text \<open>
  A state in which a send is outstanding (its request never settles); a reply with status
  204, which has no body (the text of the TypeError is the one Chrome gives); Enter pressed
  together with Ctrl; a session-creation reply with status 200 whose body is not JSON; and
  one with status 503.
\<close>

definition waiting :: client where
  "waiting =
     sendMessage ascii_decoder (send_at 2000 2000 2001 NeverSettles) (onChange ''hello'' connected)"

definition no_content :: "response settled" where
  "no_content =
     Fulfilled \<lparr>status = 204,
       body = NullBody (''Cannot read properties of null (reading '' @ [CHR 0x27] @
                        ''getReader'' @ [CHR 0x27] @ '')'')\<rparr>"

definition ctrl_enter :: key_event where
  "ctrl_enter =
     \<lparr>key = ''Enter'', shiftKey = False, ctrlKey = True, altKey = False, metaKey = False\<rparr>"

definition bad_json_start :: start_env where
  "bad_json_start =
     \<lparr>start_reply = Fulfilled
        \<lparr>start_status = 200, start_text = Fulfilled ''<html>ok</html>'',
         start_json = Rejected ''Unexpected token < in JSON at position 0''\<rparr>,
      start_now = 990, start_time = ''9:59:58 AM''\<rparr>"

definition down_start :: start_env where
  "down_start =
     \<lparr>start_reply = Fulfilled
        \<lparr>start_status = 503, start_text = Fulfilled ''Service Unavailable'',
         start_json = Rejected ''Unexpected token S in JSON at position 0''\<rparr>,
      start_now = 990, start_time = ''9:59:58 AM''\<rparr>"

section \<open>Properties\<close>

subsection \<open>Evaluation and the read loop\<close>

lemmas run_defs = initial_def sendMessage_def sendMessage_begin_def
  send_try_def on_buffer_def on_catch_def errorMessage_def placeholder_def userMessage_def
  botMessagePlaceholderId_def truthy_def trim_def isWhiteSpace_def startsWith_def substring_def
  ok_def ascii_decoder_def onChange_def response_text_def
  start_fixture_def connected_def send_at_def http_def
  startChatSession_def start_try_def start_ok_def greeting_def greeting_text_def

lemma decode_append:
  "decode dec s (a @ b) =
     (let (s1, o1) = decode dec s a; (s2, o2) = decode dec s1 b in (s2, o1 @ o2))"
  by (induction a arbitrary: s) (auto split: prod.splits)

text \<open>
  The read loop returns the decoding of the concatenated chunks, and only when the stream
  reports its end.
\<close>

lemma readLoop_concat:
  "readLoop dec s buffer chunks fin =
     (case fin of
        Fulfilled _ \<Rightarrow> Fulfilled (buffer @ snd (decode dec s (concat chunks)))
      | Rejected m \<Rightarrow> Rejected m
      | NeverSettles \<Rightarrow> NeverSettles)"
proof (induction chunks arbitrary: s buffer)
  case Nil
  then show ?case by (cases fin) auto
next
  case (Cons c cs)
  then show ?case
    by (cases fin) (auto simp: decode_append split: prod.splits)
qed

subsection \<open>The decision table\<close>



subsection \<open>Helper facts\<close>

lemma mutate_fresh:
  assumes "pid \<notin> msg_id ` set msgs"
  shows "map (\<lambda>m. if msg_id m = pid then f m else m) msgs = msgs"
  using assms by (induction msgs) auto

lemma filter_fresh:
  assumes "pid \<notin> msg_id ` set msgs"
  shows "filter (\<lambda>m. \<not> (msg_id m = pid)) msgs = msgs"
  using assms by (induction msgs) auto

lemma send_try_never_settles:
  "send_try dec r = NeverSettles \<longleftrightarrow>
     r = NeverSettles \<or> (\<exists>resp chunks. r = Fulfilled resp \<and> body resp = Stream chunks NeverSettles)"
  by (auto simp: send_try_def response_text_def readLoop_concat
      split: settled.splits body.splits prod.splits)

subsection \<open>A body without the marker\<close>

text \<open>
  For every admitted send whose reply has a 2xx status and a body stream that is read to
  its end, when the drained, trimmed body lacks the marker \<open>data:\<close> the placeholder (the
  message at the last position once the send has begun) is mutated in place: it keeps its
  id and its position, its state becomes \<open>Error\<close>, and its text becomes one fixed literal
  when the trimmed body is non-empty and a different fixed literal when it is empty.
\<close>

lemma bad_body_marks_placeholder:
  assumes "trim (inputMessage st) \<noteq> []" and "truthy (sessionId st)"
    and "reply env = Fulfilled resp" and "ok resp"
    and "body resp = Stream chunks (Fulfilled ())"
    and "buffer = snd (decode dec (dec_init dec) (concat chunks))"
    and "\<not> startsWith (trim buffer) ''data:''"
  shows "messages (sendMessage_begin env st) ! Suc (length (messages st)) = placeholder env \<and>
     length (messages (sendMessage dec env st)) = length (messages (sendMessage_begin env st)) \<and>
     messages (sendMessage dec env st) ! Suc (length (messages st)) =
       (placeholder env)\<lparr>msg_text :=
          (if trim buffer \<noteq> [] then ''Error: Received malformed response from server.''
           else ''No response from server.''),
          isError := Some True, isStreaming := Some False\<rparr> \<and>
     msg_id (messages (sendMessage dec env st) ! Suc (length (messages st))) =
       msg_id (placeholder env) \<and>
     state_of (messages (sendMessage dec env st) ! Suc (length (messages st))) = Error \<and>
     ''Error: Received malformed response from server.'' \<noteq> ''No response from server.''"
proof -
  have "send_try dec (reply env) = Fulfilled buffer"
    using assms by (simp add: send_try_def readLoop_concat)
  with assms(1,2,7) show ?thesis
    by (simp add: sendMessage_def sendMessage_begin_def on_buffer_def Let_def nth_append
        placeholder_def state_of_def)
qed

text \<open>A body \<open>garbage\<close> in two chunks, and a body of a space and a line feed.\<close>

lemma bad_body_marks_placeholder_examples:
  "trim (inputMessage (onChange ''hello'' connected)) \<noteq> [] \<and>
   truthy (sessionId (onChange ''hello'' connected)) \<and>
   ok \<lparr>status = 200, body = Stream ['' gar'', ''bage ''] (Fulfilled ())\<rparr> \<and>
   snd (decode ascii_decoder (dec_init ascii_decoder) (concat ['' gar'', ''bage ''])) = '' garbage '' \<and>
   \<not> startsWith (trim '' garbage '') ''data:'' \<and>
   map msg_text (messages (sendMessage ascii_decoder
      (send_at 2000 2000 2001 (http 200 ['' gar'', ''bage ''])) (onChange ''hello'' connected))) =
     [greeting_text, ''hello'', ''Error: Received malformed response from server.''] \<and>
   map msg_id (messages (sendMessage ascii_decoder
      (send_at 2000 2000 2001 (http 200 ['' gar'', ''bage ''])) (onChange ''hello'' connected))) =
     [990, 2000, 2001] \<and>
   map state_of (messages (sendMessage ascii_decoder
      (send_at 2000 2000 2001 (http 200 ['' gar'', ''bage ''])) (onChange ''hello'' connected))) =
     [Complete, Complete, Error] \<and>
   ok \<lparr>status = 200, body = Stream ['' '', [CHR 0x0A]] (Fulfilled ())\<rparr> \<and>
   snd (decode ascii_decoder (dec_init ascii_decoder) (concat ['' '', [CHR 0x0A]])) =
     [CHR 0x20, CHR 0x0A] \<and>
   trim [CHR 0x20, CHR 0x0A] = [] \<and>
   \<not> startsWith (trim [CHR 0x20, CHR 0x0A]) ''data:'' \<and>
   map msg_text (messages (sendMessage ascii_decoder
      (send_at 2000 2000 2001 (http 200 ['' '', [CHR 0x0A]])) (onChange ''hello'' connected))) =
     [greeting_text, ''hello'', ''No response from server.''] \<and>
   map msg_id (messages (sendMessage ascii_decoder
      (send_at 2000 2000 2001 (http 200 ['' '', [CHR 0x0A]])) (onChange ''hello'' connected))) =
     [990, 2000, 2001] \<and>
   map state_of (messages (sendMessage ascii_decoder
      (send_at 2000 2000 2001 (http 200 ['' '', [CHR 0x0A]])) (onChange ''hello'' connected))) =
     [Complete, Complete, Error]"
  using bad_body_marks_placeholder [where st = "onChange ''hello'' connected"
      and dec = ascii_decoder
      and env = "send_at 2000 2000 2001 (http 200 ['' gar'', ''bage ''])"
      and resp = "\<lparr>status = 200, body = Stream ['' gar'', ''bage ''] (Fulfilled ())\<rparr>"
      and chunks = "['' gar'', ''bage '']" and buffer = "'' garbage ''"]
    bad_body_marks_placeholder [where st = "onChange ''hello'' connected"
      and dec = ascii_decoder
      and env = "send_at 2000 2000 2001 (http 200 ['' '', [CHR 0x0A]])"
      and resp = "\<lparr>status = 200, body = Stream ['' '', [CHR 0x0A]] (Fulfilled ())\<rparr>"
      and chunks = "['' '', [CHR 0x0A]]" and buffer = "[CHR 0x20, CHR 0x0A]"]
  by (simp add: run_defs state_of_def)

text \<open>
  Claim C4, at a failing input. The claim is that for every send whose HTTP call returns
  successfully an empty body leaves the placeholder in place, in state \<open>Error\<close>, with
  the fixed no-response text. A reply with status 204 is successful and has no body:
  \<^verbatim>\<open>response.body\<close> is \<^verbatim>\<open>null\<close>, line 254 throws, and the \<^verbatim>\<open>catch\<close>
  branch deletes the placeholder (id 2001) and appends a new message (id 2003) whose text
  is built from the TypeError.
\<close>

theorem no_body_deletes_placeholder:
  "no_content = Fulfilled \<lparr>status = 204,
       body = NullBody (''Cannot read properties of null (reading '' @ [CHR 0x27] @
                        ''getReader'' @ [CHR 0x27] @ '')'')\<rparr> \<and>
   ok \<lparr>status = 204,
       body = NullBody (''Cannot read properties of null (reading '' @ [CHR 0x27] @
                        ''getReader'' @ [CHR 0x27] @ '')'')\<rparr> \<and>
   botMessagePlaceholderId (send_at 2000 2000 2001 no_content) = 2001 \<and>
   map msg_id (messages (sendMessage ascii_decoder (send_at 2000 2000 2001 no_content)
      (onChange ''hello'' connected))) = [990, 2000, 2003] \<and>
   map msg_text (messages (sendMessage ascii_decoder (send_at 2000 2000 2001 no_content)
      (onChange ''hello'' connected))) =
     [greeting_text, ''hello'',
      ''Something went wrong: Cannot read properties of null (reading '' @ [CHR 0x27] @
      ''getReader'' @ [CHR 0x27] @ ''). Please try again.'']"
  by (simp add: run_defs no_content_def)

subsection \<open>Chunking\<close>

text \<open>
  Claim C7. The result of a send depends only on the concatenation of the received chunks,
  never on how the body was split: two chunk sequences with equal concatenations (and the
  same status and the same end of stream) give the same final state. Nothing of a partial
  buffer is interpreted before the stream signals its end: while the end has not been
  signalled the conversation is the one set up before the request, whatever the chunks
  received so far contain.
\<close>

theorem chunking_irrelevant:
  assumes "concat chunks1 = concat chunks2"
  shows "sendMessage dec (env\<lparr>reply := Fulfilled \<lparr>status = code, body = Stream chunks1 fin\<rparr>\<rparr>) st =
         sendMessage dec (env\<lparr>reply := Fulfilled \<lparr>status = code, body = Stream chunks2 fin\<rparr>\<rparr>) st \<and>
     (trim (inputMessage st) \<noteq> [] \<and> truthy (sessionId st) \<and> 200 \<le> code \<and> code \<le> 299 \<longrightarrow>
        messages (sendMessage dec
           (env\<lparr>reply := Fulfilled \<lparr>status = code, body = Stream chunks1 NeverSettles\<rparr>\<rparr>) st) =
        messages st @ [userMessage env st, placeholder env])"
proof -
  have "send_try dec (Fulfilled \<lparr>status = code, body = Stream chunks1 fin\<rparr>) =
        send_try dec (Fulfilled \<lparr>status = code, body = Stream chunks2 fin\<rparr>)"
    using assms
    by (auto simp: send_try_def response_text_def readLoop_concat ok_def split: settled.splits)
  then have "sendMessage dec (env\<lparr>reply := Fulfilled \<lparr>status = code, body = Stream chunks1 fin\<rparr>\<rparr>) st =
         sendMessage dec (env\<lparr>reply := Fulfilled \<lparr>status = code, body = Stream chunks2 fin\<rparr>\<rparr>) st"
    by (cases "send_try dec (Fulfilled \<lparr>status = code, body = Stream chunks2 fin\<rparr>)")
      (simp_all add: sendMessage_def sendMessage_begin_def userMessage_def placeholder_def
        botMessagePlaceholderId_def on_catch_def errorMessage_def)
  moreover have "trim (inputMessage st) \<noteq> [] \<and> truthy (sessionId st) \<and> 200 \<le> code \<and> code \<le> 299 \<longrightarrow>
        messages (sendMessage dec
           (env\<lparr>reply := Fulfilled \<lparr>status = code, body = Stream chunks1 NeverSettles\<rparr>\<rparr>) st) =
        messages st @ [userMessage env st, placeholder env]"
    by (simp add: sendMessage_def sendMessage_begin_def send_try_def readLoop_concat ok_def
        userMessage_def placeholder_def botMessagePlaceholderId_def)
  ultimately show ?thesis by blast
qed

theorem chunking_irrelevant_witness:
  "concat [''da'', ''ta: H'', ''i''] = concat [''data: Hi''] \<and>
   sendMessage ascii_decoder (send_at 2000 2000 2001 (http 200 [''da'', ''ta: H'', ''i'']))
     (onChange ''hello'' connected) =
   sendMessage ascii_decoder (send_at 2000 2000 2001 (http 200 [''data: Hi'']))
     (onChange ''hello'' connected) \<and>
   map msg_text (messages (sendMessage ascii_decoder
      (send_at 2000 2000 2001 (http 200 [''da'', ''ta: H'', ''i''])) (onChange ''hello'' connected))) =
     [greeting_text, ''hello'', ''Hi''] \<and>
   map state_of (messages (sendMessage ascii_decoder
      (send_at 2000 2000 2001
         (Fulfilled \<lparr>status = 200, body = Stream [''data: Hi''] NeverSettles\<rparr>))
      (onChange ''hello'' connected))) = [Complete, Complete, Pending]"
  using chunking_irrelevant [where ?chunks1.0 = "[''da'', ''ta: H'', ''i'']"
      and ?chunks2.0 = "[''data: Hi'']" and dec = ascii_decoder
      and env = "send_at 2000 2000 2001 NeverSettles" and code = 200 and fin = "Fulfilled ()"
      and st = "onChange ''hello'' connected"]
  by (simp add: run_defs state_of_def)

subsection \<open>The latch\<close>

text \<open>
  Claim C10. After every terminating execution of \<^verbatim>\<open>sendMessage\<close> that passed the
  admission check, whatever the outcome, \<^verbatim>\<open>isSending\<close> is false and the input text
  is the empty string, and the session id is kept, so that a subsequent send of any
  non-blank text is admitted: the button is enabled and the request is issued.
\<close>

theorem latch_released:
  assumes "trim (inputMessage st) \<noteq> []" and "truthy (sessionId st)"
    and "send_try dec (reply env) \<noteq> NeverSettles"
  shows "isSending (sendMessage dec env st) = False \<and>
     inputMessage (sendMessage dec env st) = [] \<and>
     sessionId (sendMessage dec env st) = sessionId st \<and>
     (\<forall>t env'. trim t \<noteq> [] \<longrightarrow>
        \<not> sendButton_disabled (onChange t (sendMessage dec env st)) \<and>
        fetches (sendMessage dec env' (onChange t (sendMessage dec env st))) =
          fetches (sendMessage dec env st) @
            [MessageRequest (case sessionId st of None \<Rightarrow> ''null'' | Some s \<Rightarrow> s) t])"
proof (cases "send_try dec (reply env)")
  case (Fulfilled buffer)
  with assms show ?thesis
    by (auto simp: sendMessage_def sendMessage_begin_def sendButton_disabled_def onChange_def Let_def
        split: settled.splits)
next
  case (Rejected m)
  with assms show ?thesis
    by (auto simp: sendMessage_def sendMessage_begin_def sendButton_disabled_def onChange_def Let_def
        split: settled.splits)
next
  case NeverSettles
  with assms show ?thesis by simp
qed

theorem latch_released_witness:
  "trim (inputMessage (onChange ''hello'' connected)) \<noteq> [] \<and>
   truthy (sessionId (onChange ''hello'' connected)) \<and>
   send_try ascii_decoder (reply (send_at 2000 2000 2001 (http 503 [''down'']))) \<noteq> NeverSettles \<and>
   isSending (sendMessage ascii_decoder (send_at 2000 2000 2001 (http 503 [''down'']))
     (onChange ''hello'' connected)) = False \<and>
   inputMessage (sendMessage ascii_decoder (send_at 2000 2000 2001 (http 503 [''down'']))
     (onChange ''hello'' connected)) = [] \<and>
   fetches (sendMessage ascii_decoder (send_at 3000 3000 3001 (http 200 [''data: ok'']))
     (onChange ''again'' (sendMessage ascii_decoder (send_at 2000 2000 2001 (http 503 [''down'']))
        (onChange ''hello'' connected)))) =
     [StartRequest, MessageRequest ''s1'' ''hello'', MessageRequest ''s1'' ''again'']"
  using latch_released [where st = "onChange ''hello'' connected" and dec = ascii_decoder
      and env = "send_at 2000 2000 2001 (http 503 [''down''])"]
  by (simp add: run_defs string_of_nat.simps digit_def)

subsection \<open>Admission\<close>

text \<open>
  \<^verbatim>\<open>sendMessage\<close> either changes nothing or leaves the input empty; so in every
  reachable state an outstanding send means an empty input.
\<close>

lemma sendMessage_input:
  "sendMessage dec env st = st \<or> inputMessage (sendMessage dec env st) = []"
  by (cases "send_try dec (reply env)")
    (simp_all add: sendMessage_def sendMessage_begin_def Let_def)

lemma sending_clears_input:
  assumes "reachable dec st" and "isSending st"
  shows "inputMessage st = []"
  using assms
proof (induction rule: reachable.induct)
  case reach_initial
  then show ?case by (simp add: initial_def)
next
  case (reach_start st senv)
  then show ?case
    by (simp add: startChatSession_def Let_def split: settled.splits)
next
  case (reach_change st v)
  then show ?case by (simp add: onChange_def)
next
  case (reach_keydown st env e)
  then show ?case
    using sendMessage_input [of dec env st]
    by (auto simp: handleChatKeyDown_def split: if_splits)
next
  case (reach_click st env)
  then show ?case
    using sendMessage_input [of dec env st]
    by (auto simp: sendButton_click_def split: if_splits)
next
  case (reach_send st env)
  then show ?case
    using sendMessage_input [of dec env st] by auto
qed

text \<open>Two reachable states: connected, and waiting for a reply.\<close>

lemma connected_reachable: "reachable dec connected"
  unfolding connected_def by (intro reachable.intros)

lemma waiting_reachable: "reachable ascii_decoder waiting"
  unfolding waiting_def
  by (intro reach_send reach_change connected_reachable) (simp add: run_defs)

text \<open>
  Claim C5. In every reachable state, send is a no-op leaving the entire client state
  unchanged (conversation, input text, in-flight latch, and the logs) whenever the input
  text is empty or whitespace-only, or no session id is set, or a send is already
  outstanding. This holds for \<^verbatim>\<open>sendMessage\<close> itself and for its two callers, the
  Enter key handler and the send button.
\<close>

theorem send_rejected_without_effect:
  assumes "reachable dec st"
    and "trim (inputMessage st) = [] \<or> \<not> truthy (sessionId st) \<or> isSending st"
  shows "sendMessage dec env st = st \<and>
     handleChatKeyDown dec env e st = (key e = ''Enter'' \<and> \<not> shiftKey e, st) \<and>
     sendButton_click dec env st = st"
proof -
  have "trim (inputMessage st) = [] \<or> \<not> truthy (sessionId st)"
  proof (cases "isSending st")
    case True
    with assms(1) have "inputMessage st = []" by (rule sending_clears_input)
    then show ?thesis by (simp add: trim_def)
  next
    case False
    with assms(2) show ?thesis by simp
  qed
  then have "sendMessage dec env st = st"
    by (auto simp: sendMessage_def)
  then show ?thesis
    by (simp add: handleChatKeyDown_def sendButton_click_def)
qed

theorem send_rejected_without_effect_witness:
  "reachable ascii_decoder waiting \<and> isSending waiting \<and> truthy (sessionId waiting) \<and>
   sendMessage ascii_decoder (send_at 2002 2002 2003 (http 200 [''data: x''])) waiting = waiting \<and>
   sendButton_click ascii_decoder (send_at 2002 2002 2003 (http 200 [''data: x''])) waiting = waiting \<and>
   snd (handleChatKeyDown ascii_decoder (send_at 2002 2002 2003 (http 200 [''data: x'']))
      ctrl_enter waiting) = waiting \<and>
   reachable ascii_decoder (onChange [CHR 0x20, CHR 0x0A] connected) \<and>
   trim (inputMessage (onChange [CHR 0x20, CHR 0x0A] connected)) = [] \<and>
   sendMessage ascii_decoder (send_at 2002 2002 2003 (http 200 [''data: x'']))
     (onChange [CHR 0x20, CHR 0x0A] connected) = onChange [CHR 0x20, CHR 0x0A] connected \<and>
   reachable ascii_decoder (onChange ''hi'' initial) \<and>
   \<not> truthy (sessionId (onChange ''hi'' initial)) \<and>
   sendMessage ascii_decoder (send_at 2002 2002 2003 (http 200 [''data: x'']))
     (onChange ''hi'' initial) = onChange ''hi'' initial"
proof -
  have r1: "reachable ascii_decoder waiting" by (rule waiting_reachable)
  have r2: "reachable ascii_decoder (onChange [CHR 0x20, CHR 0x0A] connected)"
    by (intro reach_change connected_reachable) (simp add: run_defs)
  have r3: "reachable ascii_decoder (onChange ''hi'' initial)"
    by (intro reach_change reach_initial) (simp add: initial_def)
  have h1: "isSending waiting" by (simp add: waiting_def run_defs)
  have h2: "trim (inputMessage (onChange [CHR 0x20, CHR 0x0A] connected)) = []"
    by (simp add: run_defs)
  have h3: "\<not> truthy (sessionId (onChange ''hi'' initial))" by (simp add: run_defs)
  have s: "truthy (sessionId waiting)" by (simp add: waiting_def run_defs)
  from send_rejected_without_effect [OF r1, of "send_at 2002 2002 2003 (http 200 [''data: x''])" ctrl_enter]
    send_rejected_without_effect [OF r2, of "send_at 2002 2002 2003 (http 200 [''data: x''])" ctrl_enter]
    send_rejected_without_effect [OF r3, of "send_at 2002 2002 2003 (http 200 [''data: x''])" ctrl_enter]
    r1 r2 r3 h1 h2 h3 s
  show ?thesis by simp
qed

subsection \<open>The Enter key\<close>

text \<open>
  Claim C8 (as amended). For every Enter keypress: without Shift it calls
  \<^verbatim>\<open>sendMessage\<close> exactly when the input is non-empty after trimming and no send is
  outstanding (and then, with a session, the message request is issued), and otherwise
  changes nothing; with Shift it never sends, changes nothing and does not prevent the
  default action of the key, which is the line break of the text area. Ctrl, Alt and
  Meta are not looked at.
\<close>

theorem enter_key_rule:
  assumes "key e = ''Enter''"
  shows "(\<not> shiftKey e \<and> trim (inputMessage st) \<noteq> [] \<and> \<not> isSending st \<longrightarrow>
            handleChatKeyDown dec env e st = (True, sendMessage dec env st) \<and>
            (truthy (sessionId st) \<longrightarrow>
               fetches (sendMessage dec env st) =
                 fetches st @ [MessageRequest
                   (case sessionId st of None \<Rightarrow> ''null'' | Some s \<Rightarrow> s) (inputMessage st)])) \<and>
         (\<not> shiftKey e \<and> (trim (inputMessage st) = [] \<or> isSending st) \<longrightarrow>
            handleChatKeyDown dec env e st = (True, st)) \<and>
         (shiftKey e \<longrightarrow> handleChatKeyDown dec env e st = (False, st))"
  using assms
  by (auto simp: handleChatKeyDown_def sendMessage_def sendMessage_begin_def Let_def
      split: settled.splits)

theorem enter_key_rule_witness:
  "key ctrl_enter = ''Enter'' \<and> \<not> shiftKey ctrl_enter \<and>
   trim (inputMessage (onChange ''hi'' connected)) \<noteq> [] \<and> \<not> isSending (onChange ''hi'' connected) \<and>
   handleChatKeyDown ascii_decoder (send_at 2002 2002 2003 (http 200 [''data: x''])) ctrl_enter
     (onChange ''hi'' connected) =
   (True, sendMessage ascii_decoder (send_at 2002 2002 2003 (http 200 [''data: x'']))
     (onChange ''hi'' connected)) \<and>
   key (ctrl_enter\<lparr>shiftKey := True\<rparr>) = ''Enter'' \<and>
   handleChatKeyDown ascii_decoder (send_at 2002 2002 2003 (http 200 [''data: x'']))
     (ctrl_enter\<lparr>shiftKey := True\<rparr>) (onChange ''hi'' connected) =
   (False, onChange ''hi'' connected)"
  using enter_key_rule [where e = ctrl_enter and st = "onChange ''hi'' connected"
      and dec = ascii_decoder and env = "send_at 2002 2002 2003 (http 200 [''data: x''])"]
    enter_key_rule [where e = "ctrl_enter\<lparr>shiftKey := True\<rparr>" and st = "onChange ''hi'' connected"
      and dec = ascii_decoder and env = "send_at 2002 2002 2003 (http 200 [''data: x''])"]
  by (simp add: run_defs ctrl_enter_def handleChatKeyDown_def)

text \<open>
  Claim C8 as it was stated fails for a modifier other than Shift: Enter pressed together
  with Ctrl sends the message.
\<close>

theorem ctrl_enter_sends:
  "key ctrl_enter = ''Enter'' \<and> ctrlKey ctrl_enter \<and>
   fetches (onChange ''hi'' connected) = [StartRequest] \<and>
   fetches (snd (handleChatKeyDown ascii_decoder (send_at 2002 2002 2003 (http 200 [''data: x'']))
      ctrl_enter (onChange ''hi'' connected))) = [StartRequest, MessageRequest ''s1'' ''hi''] \<and>
   map msg_text (messages (snd (handleChatKeyDown ascii_decoder
      (send_at 2002 2002 2003 (http 200 [''data: x''])) ctrl_enter (onChange ''hi'' connected)))) =
     [greeting_text, ''hi'', ''x'']"
  by (simp add: run_defs ctrl_enter_def handleChatKeyDown_def)

subsection \<open>Starting a session\<close>

text \<open>
  Claim C6 (as amended). \<^verbatim>\<open>startChatSession\<close> sets a session id if and only if the
  session-creation call returns a 2xx status and the body parses as JSON carrying a
  \<^verbatim>\<open>session_id\<close>; then the id is the one of the response and the conversation is
  exactly one message, sender Bot, state Complete, with the fixed greeting. On a network
  error, on a status that is not 2xx, and on a 2xx reply whose body cannot be parsed, no
  session id is set, the conversation is left as it was, the error is raised in an alert
  outside the conversation, and exactly one request has been issued (no retry).
\<close>

theorem startChatSession_outcomes:
  "(start_reply env = Fulfilled r \<and> start_ok r \<and> start_json r = Fulfilled (Some sid) \<longrightarrow>
      sessionId (startChatSession env st) = Some sid \<and>
      messages (startChatSession env st) = [greeting env] \<and>
      sender (greeting env) = Bot \<and> state_of (greeting env) = Complete \<and>
      msg_text (greeting env) = greeting_text \<and>
      alerts (startChatSession env st) = alerts st \<and>
      fetches (startChatSession env st) = fetches st @ [StartRequest] \<and>
      \<not> isConnecting (startChatSession env st)) \<and>
   (start_reply env = Rejected m \<or>
    (start_reply env = Fulfilled r \<and> \<not> start_ok r \<and> start_text r = Rejected m) \<or>
    (start_reply env = Fulfilled r \<and> start_ok r \<and> start_json r = Rejected m) \<longrightarrow>
      sessionId (startChatSession env st) = None \<and>
      messages (startChatSession env st) = messages st \<and>
      alerts (startChatSession env st) = alerts st @
        [''Failed to start chat session. Please ensure the backend is running. Error: '' @ m] \<and>
      fetches (startChatSession env st) = fetches st @ [StartRequest] \<and>
      \<not> isConnecting (startChatSession env st)) \<and>
   (start_reply env = Fulfilled r \<and> \<not> start_ok r \<and> start_text r = Fulfilled errorText \<longrightarrow>
      sessionId (startChatSession env st) = None \<and>
      messages (startChatSession env st) = messages st \<and>
      alerts (startChatSession env st) = alerts st @
        [''Failed to start chat session. Please ensure the backend is running. Error: '' @
         ''HTTP error! status: '' @ string_of_nat (start_status r) @ '', message: '' @ errorText] \<and>
      fetches (startChatSession env st) = fetches st @ [StartRequest] \<and>
      \<not> isConnecting (startChatSession env st)) \<and>
   (sessionId st = None \<longrightarrow>
      (sessionId (startChatSession env st) = Some sid \<longleftrightarrow>
        (\<exists>r. start_reply env = Fulfilled r \<and> start_ok r \<and> start_json r = Fulfilled (Some sid))))"
  by (auto simp: startChatSession_def start_try_def greeting_def state_of_def Let_def
      split: settled.splits)

theorem startChatSession_outcomes_witness:
  "start_ok \<lparr>start_status = 200,
      start_text = Fulfilled (''{'' @ [CHR 0x22] @ ''session_id'' @ [CHR 0x22] @ '': '' @
                              [CHR 0x22] @ ''s1'' @ [CHR 0x22] @ ''}''),
      start_json = Fulfilled (Some ''s1'')\<rparr> \<and>
   sessionId (startChatSession start_fixture initial) = Some ''s1'' \<and>
   map sender (messages (startChatSession start_fixture initial)) = [Bot] \<and>
   map state_of (messages (startChatSession start_fixture initial)) = [Complete] \<and>
   \<not> start_ok \<lparr>start_status = 503, start_text = Fulfilled ''Service Unavailable'',
      start_json = Rejected ''Unexpected token S in JSON at position 0''\<rparr> \<and>
   sessionId (startChatSession down_start initial) = None \<and>
   messages (startChatSession down_start initial) = [] \<and>
   alerts (startChatSession down_start initial) =
     [''Failed to start chat session. Please ensure the backend is running. Error: HTTP error! status: 503, message: Service Unavailable''] \<and>
   fetches (startChatSession down_start initial) = [StartRequest]"
  using startChatSession_outcomes [where env = start_fixture and st = initial and sid = "''s1''"
      and r = "\<lparr>start_status = 200,
        start_text = Fulfilled (''{'' @ [CHR 0x22] @ ''session_id'' @ [CHR 0x22] @ '': '' @
                                [CHR 0x22] @ ''s1'' @ [CHR 0x22] @ ''}''),
        start_json = Fulfilled (Some ''s1'')\<rparr>"]
    startChatSession_outcomes [where env = down_start and st = initial
      and errorText = "''Service Unavailable''"
      and r = "\<lparr>start_status = 503, start_text = Fulfilled ''Service Unavailable'',
        start_json = Rejected ''Unexpected token S in JSON at position 0''\<rparr>"]
  by (simp add: run_defs down_start_def state_of_def string_of_nat.simps digit_def)

text \<open>
  Claim C6 as it was stated fails in one direction: a reply with status 200 whose body is
  not JSON establishes no session.
\<close>

theorem start_2xx_without_session:
  "start_reply bad_json_start = Fulfilled
      \<lparr>start_status = 200, start_text = Fulfilled ''<html>ok</html>'',
       start_json = Rejected ''Unexpected token < in JSON at position 0''\<rparr> \<and>
   sessionId (startChatSession bad_json_start initial) = None \<and>
   messages (startChatSession bad_json_start initial) = [] \<and>
   alerts (startChatSession bad_json_start initial) =
     [''Failed to start chat session. Please ensure the backend is running. Error: Unexpected token < in JSON at position 0'']"
  by (simp add: run_defs bad_json_start_def)

subsection \<open>Message ids\<close>

text \<open>
  Ids are clock readings plus 0, 1 or 2. When the id of the placeholder is not yet in
  the conversation, a reply with the marker rewrites the placeholder alone and a
  transport error replaces the placeholder alone; and when every clock reading of a send
  lies above the ids already present and the readings do not decrease, ids stay
  strictly increasing.
\<close>

lemma success_in_place:
  assumes "trim (inputMessage st) \<noteq> []" and "truthy (sessionId st)"
    and "send_try dec (reply env) = Fulfilled buffer"
    and "startsWith (trim buffer) ''data:''"
    and "botMessagePlaceholderId env \<notin> msg_id ` set (messages st)"
    and "now_user env \<noteq> botMessagePlaceholderId env"
  shows "messages (sendMessage dec env st) =
     messages st @ [userMessage env st,
       (placeholder env)\<lparr>msg_text := trim (drop 5 (trim buffer)), isStreaming := Some False\<rparr>]"
  using assms
  by (simp add: sendMessage_def sendMessage_begin_def on_buffer_def Let_def mutate_fresh
      userMessage_def placeholder_def substring_def)

lemma transport_error_replaces:
  assumes "trim (inputMessage st) \<noteq> []" and "truthy (sessionId st)"
    and "send_try dec (reply env) = Rejected m"
    and "botMessagePlaceholderId env \<notin> msg_id ` set (messages st)"
    and "now_user env \<noteq> botMessagePlaceholderId env"
  shows "messages (sendMessage dec env st) =
     messages st @ [userMessage env st, errorMessage env m]"
  using assms
  by (simp add: sendMessage_def sendMessage_begin_def on_catch_def Let_def filter_fresh
      userMessage_def placeholder_def)

lemma ids_increasing:
  assumes "sorted_wrt (<) (map msg_id (messages st))"
    and "\<forall>x \<in> set (messages st). msg_id x < now_user env"
    and "now_user env \<le> now_bot env" and "now_bot env \<le> now_err env"
  shows "sorted_wrt (<) (map msg_id (messages (sendMessage dec env st)))"
proof (cases "trim (inputMessage st) = [] \<or> \<not> truthy (sessionId st)")
  case True
  with assms show ?thesis by (simp add: sendMessage_def)
next
  case False
  have fresh: "botMessagePlaceholderId env \<notin> msg_id ` set (messages st)"
    using assms by (auto simp: botMessagePlaceholderId_def)
  have user: "now_user env \<noteq> botMessagePlaceholderId env"
    using assms by (simp add: botMessagePlaceholderId_def)
  show ?thesis
  proof (cases "send_try dec (reply env)")
    case (Fulfilled buffer)
    with False assms fresh user show ?thesis
      by (auto simp: sendMessage_def sendMessage_begin_def on_buffer_def Let_def mutate_fresh
          userMessage_def placeholder_def botMessagePlaceholderId_def sorted_wrt_append)
  next
    case (Rejected m)
    with False assms fresh user show ?thesis
      by (auto simp: sendMessage_def sendMessage_begin_def on_catch_def Let_def filter_fresh
          userMessage_def placeholder_def errorMessage_def botMessagePlaceholderId_def
          sorted_wrt_append)
  next
    case NeverSettles
    with False assms show ?thesis
      by (auto simp: sendMessage_def sendMessage_begin_def Let_def
          userMessage_def placeholder_def botMessagePlaceholderId_def sorted_wrt_append)
  qed
qed

text \<open>
  Whatever the ids, a reply with the marker turns the message at the placeholder's
  position into a complete message with the payload as its text.
\<close>

lemma success_marks_placeholder:
  assumes "trim (inputMessage st) \<noteq> []" and "truthy (sessionId st)"
    and "send_try dec (reply env) = Fulfilled buffer"
    and "startsWith (trim buffer) ''data:''"
  shows "length (messages (sendMessage dec env st)) = length (messages st) + 2 \<and>
     messages (sendMessage dec env st) ! Suc (length (messages st)) =
       (placeholder env)\<lparr>msg_text := trim (drop 5 (trim buffer)), isStreaming := Some False\<rparr> \<and>
     state_of (messages (sendMessage dec env st) ! Suc (length (messages st))) = Complete"
  using assms
  by (simp add: sendMessage_def sendMessage_begin_def on_buffer_def Let_def nth_append
      placeholder_def state_of_def substring_def)

text \<open>
  With a clock that stands still (all readings 1000) the second reply overwrites the
  first one.
\<close>

lemma frozen_clock_collision:
  "map msg_id (messages
     (sendMessage ascii_decoder (send_at 1000 1000 1000 (http 200 [''data: B'']))
       (onChange ''b''
         (sendMessage ascii_decoder (send_at 1000 1000 1000 (http 200 [''data: A'']))
           (onChange ''a'' (startChatSession (start_fixture\<lparr>start_now := 1000\<rparr>) initial)))))) =
     [1000, 1000, 1001, 1000, 1001] \<and>
   map msg_text (messages
     (sendMessage ascii_decoder (send_at 1000 1000 1000 (http 200 [''data: B'']))
       (onChange ''b''
         (sendMessage ascii_decoder (send_at 1000 1000 1000 (http 200 [''data: A'']))
           (onChange ''a'' (startChatSession (start_fixture\<lparr>start_now := 1000\<rparr>) initial)))))) =
     [greeting_text, ''a'', ''B'', ''b'', ''B'']"
  by (simp add: run_defs)

text \<open>
  Claim C2, at a failing input. A first send fails in the network at clock reading 1000,
  so its error message gets id 1002. The next send starts at clock reading 1001, so its
  placeholder gets id 1002 as well. Its reply \<open>data: Hi there\<close> is written into both
  messages: the earlier error message, which is not the placeholder, has changed.
\<close>

theorem reply_overwrites_earlier_message:
  "map msg_id (messages after_failed_send) = [990, 999, 1002] \<and>
   map msg_text (messages after_failed_send) =
     [greeting_text, ''a'',
      ''Something went wrong: Failed to fetch. Please try again.''] \<and>
   botMessagePlaceholderId (send_at 1001 1001 1002 (http 200 [''data: Hi there''])) = 1002 \<and>
   map msg_id (messages (sendMessage ascii_decoder
      (send_at 1001 1001 1002 (http 200 [''data: Hi there''])) after_failed_send)) =
     [990, 999, 1002, 1001, 1002] \<and>
   map msg_text (messages (sendMessage ascii_decoder
      (send_at 1001 1001 1002 (http 200 [''data: Hi there''])) after_failed_send)) =
     [greeting_text, ''a'', ''Hi there'', ''b'', ''Hi there'']"
  by (simp add: run_defs after_failed_send_def)

text \<open>
  Claim C3, at a failing input. In the same situation the second send fails in the
  network too. The filter deletes the placeholder and the earlier error message with the
  same id, so the conversation has grown by one message, not by two.
\<close>

theorem transport_error_deletes_earlier_message:
  "length (messages after_failed_send) = 3 \<and>
   length (messages (sendMessage ascii_decoder
      (send_at 1001 1001 1002 (Rejected ''Failed to fetch'')) after_failed_send)) = 4 \<and>
   map msg_id (messages (sendMessage ascii_decoder
      (send_at 1001 1001 1002 (Rejected ''Failed to fetch'')) after_failed_send)) =
     [990, 999, 1001, 1004]"
  by (simp add: run_defs after_failed_send_def)

text \<open>
  Claim C9, at a failing input. In the same situation the user message of the second send
  gets id 1001, below the id 1002 already present, and the placeholder gets the id 1002 a
  second time.
\<close>

theorem message_ids_collide:
  "map msg_id (messages (sendMessage ascii_decoder
      (send_at 1001 1001 1002 (http 200 [''data: Hi there''])) after_failed_send)) =
     [990, 999, 1002, 1001, 1002] \<and>
   \<not> distinct (map msg_id (messages (sendMessage ascii_decoder
      (send_at 1001 1001 1002 (http 200 [''data: Hi there''])) after_failed_send))) \<and>
   \<not> sorted_wrt (<) (map msg_id (messages (sendMessage ascii_decoder
      (send_at 1001 1001 1002 (http 200 [''data: Hi there''])) after_failed_send)))"
  by (simp add: run_defs after_failed_send_def)

end
